theory Spec2Isabelle
  imports Main
begin

section \<open>The authorization utility (utils/authorization/index.ts)\<close>

text \<open>
  \<^verbatim>\<open>OrgRole\<close> is imported from the host. \<^verbatim>\<open>roleMapping\<close> is typed
  \<^verbatim>\<open>Record<OrgRole, number>\<close> and lists exactly three keys, so the role type has
  exactly these three members.
\<close>

datatype OrgRole = Admin | Editor | Viewer

record UserAction =
  permission :: string
  fallbackMinimumRoleRequired :: OrgRole

datatype Resource =
    ALERT_GROUPS | INTEGRATIONS | ESCALATION_CHAINS | SCHEDULES | CHATOPS
  | OUTGOING_WEBHOOKS | MAINTENANCE | API_KEYS | NOTIFICATIONS
  | NOTIFICATION_SETTINGS | USER_SETTINGS | OTHER_SETTINGS
  | TEAMS | PLUGINS

text \<open>The string value of each member of the string enum \<^verbatim>\<open>Resource\<close>.\<close>

fun Resource_value :: "Resource \<Rightarrow> string" where
  "Resource_value ALERT_GROUPS = ''alert-groups''"
| "Resource_value INTEGRATIONS = ''integrations''"
| "Resource_value ESCALATION_CHAINS = ''escalation-chains''"
| "Resource_value SCHEDULES = ''schedules''"
| "Resource_value CHATOPS = ''chatops''"
| "Resource_value OUTGOING_WEBHOOKS = ''outgoing-webhooks''"
| "Resource_value MAINTENANCE = ''maintenance''"
| "Resource_value API_KEYS = ''api-keys''"
| "Resource_value NOTIFICATIONS = ''notifications''"
| "Resource_value NOTIFICATION_SETTINGS = ''notification-settings''"
| "Resource_value USER_SETTINGS = ''user-settings''"
| "Resource_value OTHER_SETTINGS = ''other-settings''"
| "Resource_value TEAMS = ''teams''"
| "Resource_value PLUGINS = ''plugins''"

datatype Action = READ | WRITE | ADMIN | TEST | EXPORT | UPDATE_SETTINGS | INSTALL

fun Action_value :: "Action \<Rightarrow> string" where
  "Action_value READ = ''read''"
| "Action_value WRITE = ''write''"
| "Action_value ADMIN = ''admin''"
| "Action_value TEST = ''test''"
| "Action_value EXPORT = ''export''"
| "Action_value UPDATE_SETTINGS = ''update-settings''"
| "Action_value INSTALL = ''install''"

text \<open>The keys of the \<^verbatim>\<open>UserActions\<close> object (the union type \<^verbatim>\<open>Actions\<close>).\<close>

datatype Actions =
    AlertGroupsRead | AlertGroupsWrite
  | IntegrationsRead | IntegrationsWrite | IntegrationsTest
  | EscalationChainsRead | EscalationChainsWrite
  | SchedulesRead | SchedulesWrite | SchedulesExport
  | ChatOpsRead | ChatOpsWrite | ChatOpsUpdateSettings
  | OutgoingWebhooksRead | OutgoingWebhooksWrite
  | MaintenanceRead | MaintenanceWrite
  | APIKeysRead | APIKeysWrite
  | NotificationsRead
  | NotificationSettingsRead | NotificationSettingsWrite
  | UserSettingsRead | UserSettingsWrite | UserSettingsAdmin
  | OtherSettingsRead | OtherSettingsWrite
  | TeamsWrite | PluginsInstall

definition ONCALL_PERMISSION_PREFIX :: string where
  "ONCALL_PERMISSION_PREFIX = ''grafana-oncall-app''"

fun roleMapping :: "OrgRole \<Rightarrow> nat" where
  "roleMapping Admin = 0"
| "roleMapping Editor = 1"
| "roleMapping Viewer = 2"

text \<open>
  What the module reads from the host: \<^verbatim>\<open>contextSrv.user.orgRole\<close>, the optional
  \<^verbatim>\<open>contextSrv.user.permissions\<close> (a dictionary from permission strings to booleans;
  \<open>None\<close> is \<^verbatim>\<open>undefined\<close>) and the optional feature toggle
  \<^verbatim>\<open>config.featureToggles.accessControlOnCall\<close>.
\<close>

record host =
  orgRole :: OrgRole
  permissions :: "(string \<rightharpoonup> bool) option"
  accessControlOnCall :: "bool option"

definition userHasMinimumRequiredRole :: "host \<Rightarrow> OrgRole \<Rightarrow> bool" where
  "userHasMinimumRequiredRole h minimumRoleRequired =
     (roleMapping (orgRole h) \<le> roleMapping minimumRoleRequired)"

text \<open>
  \<^verbatim>\<open>!!contextSrv.user.permissions?.[permission]\<close>: \<^verbatim>\<open>undefined\<close> when the
  dictionary or the entry is missing, the stored boolean otherwise. The \<^verbatim>\<open>if\<close> on
  the toggle takes the first branch only for a toggle that is present and true.
\<close>

definition isUserActionAllowed :: "host \<Rightarrow> UserAction \<Rightarrow> bool" where
  "isUserActionAllowed h ua =
     (if (case accessControlOnCall h of None \<Rightarrow> False | Some b \<Rightarrow> b)
      then (case permissions h of
              None \<Rightarrow> False
            | Some m \<Rightarrow> (case m (permission ua) of None \<Rightarrow> False | Some b \<Rightarrow> b))
      else userHasMinimumRequiredRole h (fallbackMinimumRoleRequired ua))"

definition generatePermissionString :: "Resource \<Rightarrow> Action \<Rightarrow> bool \<Rightarrow> string" where
  "generatePermissionString resource action includePrefix =
     (if includePrefix then ONCALL_PERMISSION_PREFIX @ ''.'' else '''')
       @ Resource_value resource @ '':'' @ Action_value action"

text \<open>
  \<^verbatim>\<open>constructAction\<close> has the default parameter \<^verbatim>\<open>includePrefix = true\<close>: an
  omitted fourth argument is \<open>None\<close>.
\<close>

definition constructAction :: "Resource \<Rightarrow> Action \<Rightarrow> OrgRole \<Rightarrow> bool option \<Rightarrow> UserAction" where
  "constructAction resource action fallbackRole includePrefix =
     \<lparr> permission = generatePermissionString resource action
                      (case includePrefix of None \<Rightarrow> True | Some b \<Rightarrow> b),
       fallbackMinimumRoleRequired = fallbackRole \<rparr>"

text \<open>
  The arguments each entry of the \<^verbatim>\<open>UserActions\<close> object passes to
  \<^verbatim>\<open>constructAction\<close>, in the order of the source.
\<close>

fun UserActions_args :: "Actions \<Rightarrow> Resource \<times> Action \<times> OrgRole \<times> bool option" where
  "UserActions_args AlertGroupsRead = (ALERT_GROUPS, READ, Viewer, None)"
| "UserActions_args AlertGroupsWrite = (ALERT_GROUPS, WRITE, Editor, None)"
| "UserActions_args IntegrationsRead = (INTEGRATIONS, READ, Viewer, None)"
| "UserActions_args IntegrationsWrite = (INTEGRATIONS, WRITE, Admin, None)"
| "UserActions_args IntegrationsTest = (INTEGRATIONS, TEST, Editor, None)"
| "UserActions_args EscalationChainsRead = (ESCALATION_CHAINS, READ, Viewer, None)"
| "UserActions_args EscalationChainsWrite = (ESCALATION_CHAINS, WRITE, Admin, None)"
| "UserActions_args SchedulesRead = (SCHEDULES, READ, Viewer, None)"
| "UserActions_args SchedulesWrite = (SCHEDULES, WRITE, Admin, None)"
| "UserActions_args SchedulesExport = (SCHEDULES, WRITE, Editor, None)"
| "UserActions_args ChatOpsRead = (CHATOPS, READ, Viewer, None)"
| "UserActions_args ChatOpsWrite = (CHATOPS, WRITE, Editor, None)"
| "UserActions_args ChatOpsUpdateSettings = (CHATOPS, UPDATE_SETTINGS, Admin, None)"
| "UserActions_args OutgoingWebhooksRead = (OUTGOING_WEBHOOKS, READ, Viewer, None)"
| "UserActions_args OutgoingWebhooksWrite = (OUTGOING_WEBHOOKS, WRITE, Admin, None)"
| "UserActions_args MaintenanceRead = (MAINTENANCE, READ, Viewer, None)"
| "UserActions_args MaintenanceWrite = (MAINTENANCE, WRITE, Editor, None)"
| "UserActions_args APIKeysRead = (API_KEYS, READ, Viewer, None)"
| "UserActions_args APIKeysWrite = (API_KEYS, WRITE, Editor, None)"
| "UserActions_args NotificationsRead = (NOTIFICATIONS, READ, Editor, None)"
| "UserActions_args NotificationSettingsRead = (NOTIFICATION_SETTINGS, READ, Viewer, None)"
| "UserActions_args NotificationSettingsWrite = (NOTIFICATION_SETTINGS, WRITE, Editor, None)"
| "UserActions_args UserSettingsRead = (USER_SETTINGS, READ, Viewer, None)"
| "UserActions_args UserSettingsWrite = (USER_SETTINGS, WRITE, Editor, None)"
| "UserActions_args UserSettingsAdmin = (USER_SETTINGS, ADMIN, Admin, None)"
| "UserActions_args OtherSettingsRead = (OTHER_SETTINGS, READ, Viewer, None)"
| "UserActions_args OtherSettingsWrite = (OTHER_SETTINGS, WRITE, Admin, None)"
| "UserActions_args TeamsWrite = (TEAMS, WRITE, Admin, Some False)"
| "UserActions_args PluginsInstall = (PLUGINS, INSTALL, Admin, Some False)"

definition UserActions :: "Actions \<Rightarrow> UserAction" where
  "UserActions a =
     (case UserActions_args a of
        (resource, action, fallbackRole, includePrefix) \<Rightarrow>
          constructAction resource action fallbackRole includePrefix)"



section \<open>JavaScript values and interval timers\<close>

text \<open>
  The pages read untyped values (\<^verbatim>\<open>query\<close> parameters of type \<^verbatim>\<open>any\<close>). A
  JavaScript number is \<open>NaN\<close> or, here, an integer: the numbers of these pages are row
  positions, page sizes and delays, and the model leaves fractions, infinities and the
  rounding of doubles aside.
\<close>

datatype number = NaN | Num int

datatype jsval = JUndefined | JNull | JBoolean bool | JNumber number | JString string

text \<open>
  The abstract operation ToNumber, which both \<^verbatim>\<open>isNaN(v)\<close> and \<^verbatim>\<open>Number(v)\<close>
  apply to their argument. The conversion of a string (StringToNumber) is the parameter
  \<open>S\<close>.
\<close>

fun ToNumber :: "(string \<Rightarrow> number) \<Rightarrow> jsval \<Rightarrow> number" where
  "ToNumber S JUndefined = NaN"
| "ToNumber S JNull = Num 0"
| "ToNumber S (JBoolean b) = Num (if b then 1 else 0)"
| "ToNumber S (JNumber n) = n"
| "ToNumber S (JString s) = S s"


fun truthy :: "jsval \<Rightarrow> bool" where
  "truthy JUndefined = False"
| "truthy JNull = False"
| "truthy (JBoolean b) = b"
| "truthy (JNumber NaN) = False"
| "truthy (JNumber (Num n)) = (n \<noteq> 0)"
| "truthy (JString s) = (s \<noteq> [])"

text \<open>
  The intervals a component has started and not cleared: handle, callback and period in
  milliseconds. A handle is opaque and always truthy; \<^verbatim>\<open>setInterval\<close> returns a fresh
  one, \<^verbatim>\<open>clearInterval(undefined)\<close> does nothing.
\<close>

record 'c timers =
  next_handle :: nat
  active :: "(nat \<times> 'c \<times> nat) list"

definition no_timers :: "'c timers" where
  "no_timers = \<lparr> next_handle = 1, active = [] \<rparr>"

definition setInterval :: "'c \<Rightarrow> nat \<Rightarrow> 'c timers \<Rightarrow> nat \<times> 'c timers" where
  "setInterval callback ms t =
     (next_handle t,
      t\<lparr> next_handle := Suc (next_handle t),
         active := active t @ [(next_handle t, callback, ms)] \<rparr>)"

definition clearInterval :: "nat option \<Rightarrow> 'c timers \<Rightarrow> 'c timers" where
  "clearInterval handle t =
     (case handle of
        None \<Rightarrow> t
      | Some h \<Rightarrow> t\<lparr> active := filter (\<lambda>e. fst e \<noteq> h) (active t) \<rparr>)"

section \<open>The Incidents page\<close>

type_synonym IncidentsFiltersType = "(string \<times> string) list"

record Pagination =
  pg_start :: int
  pg_end :: int

datatype direction = Prev | Next

text \<open>
  The optional \<^verbatim>\<open>event\<close> argument of \<^verbatim>\<open>getBulkActionClickHandler\<close>, of which the
  handler only asks \<^verbatim>\<open>typeof event === 'number'\<close>.
\<close>

datatype event_arg = NumberEvent number | OtherEvent

text \<open>
  The alert group store is an external collaborator. The model keeps the three fields the
  page reads or assigns, and a log of the method calls the page makes. What a method does
  to the fields is not in the source: it is the parameter \<open>M\<close> of every handler that
  calls one.
\<close>

datatype store_call =
    UpdateBulkActions
  | UpdateSilenceOptions
  | SetIncidentsCursor string
  | SetIncidentsItemsPerPage int
  | UpdateIncidentFilters "IncidentsFiltersType option" bool
  | BulkAction jsval "string list" number
  | UpdateIncidents

record alertGroupStore =
  incidentsCursor :: jsval
  incidentsItemsPerPage :: int
  liveUpdatesPaused :: bool
  calls :: "store_call list"

type_synonym store_methods = "store_call \<Rightarrow> alertGroupStore \<Rightarrow> alertGroupStore"

definition call :: "store_methods \<Rightarrow> store_call \<Rightarrow> alertGroupStore \<Rightarrow> alertGroupStore" where
  "call M c st = (M c st)\<lparr> calls := calls st @ [c] \<rparr>"

record query =
  q_cursor :: jsval
  q_start :: jsval
  q_perpage :: jsval

text \<open>
  The component: its React state (\<^verbatim>\<open>IncidentsPageState\<close>), its private field
  \<^verbatim>\<open>pollingIntervalId\<close>, the store of its props, the intervals it has running, and the
  number of \<^verbatim>\<open>LocationHelper.update\<close> calls. \<^verbatim>\<open>setState\<close> is applied at once and its
  callback runs right after.
\<close>

record Incidents =
  selectedIncidentIds :: "string list"
  affectedRows :: "string \<rightharpoonup> bool"
  filters :: "IncidentsFiltersType option"
  pagination :: Pagination
  pollingIntervalId :: "nat option"
  store :: alertGroupStore
  timers :: "(IncidentsFiltersType option \<times> bool) timers"
  location_updates :: nat

definition ITEMS_PER_PAGE :: int where
  "ITEMS_PER_PAGE = 25"

definition POLLING_NUM_SECONDS :: nat where
  "POLLING_NUM_SECONDS = 15"

text \<open>
  The constructor. \<^verbatim>\<open>!isNaN(x) ? Number(x) : d\<close> is the case distinction on
  \<open>ToNumber x\<close>.
\<close>

definition Incidents_constructor ::
  "(string \<Rightarrow> number) \<Rightarrow> store_methods \<Rightarrow> alertGroupStore \<Rightarrow>
   (IncidentsFiltersType option \<times> bool) timers \<Rightarrow> query \<Rightarrow> Incidents" where
  "Incidents_constructor S M st tm q =
     (let cursor = (if truthy (q_cursor q) then q_cursor q else JUndefined);
          start = (case ToNumber S (q_start q) of NaN \<Rightarrow> 1 | Num n \<Rightarrow> n);
          itemsPerPage = (case ToNumber S (q_perpage q) of NaN \<Rightarrow> ITEMS_PER_PAGE | Num n \<Rightarrow> n);
          st1 = st\<lparr> incidentsCursor := cursor, incidentsItemsPerPage := itemsPerPage \<rparr>
      in \<lparr> selectedIncidentIds = [],
           affectedRows = Map.empty,
           filters = None,
           pagination = \<lparr> pg_start = start, pg_end = start + itemsPerPage - 1 \<rparr>,
           pollingIntervalId = None,
           store = call M UpdateSilenceOptions (call M UpdateBulkActions st1),
           timers = tm,
           location_updates = 0 \<rparr>)"

definition clearPollingInterval :: "Incidents \<Rightarrow> Incidents" where
  "clearPollingInterval s =
     s\<lparr> timers := clearInterval (pollingIntervalId s) (timers s),
        pollingIntervalId := None \<rparr>"

text \<open>
  \<^verbatim>\<open>setPollingInterval(filters = this.state.filters, isOnMount = false)\<close>: the callers
  that omit the arguments pass the defaults.
\<close>

definition setPollingInterval :: "IncidentsFiltersType option \<Rightarrow> bool \<Rightarrow> Incidents \<Rightarrow> Incidents" where
  "setPollingInterval fs isOnMount s =
     (case setInterval (fs, isOnMount) (POLLING_NUM_SECONDS * 1000) (timers s) of
        (h, t) \<Rightarrow> s\<lparr> pollingIntervalId := Some h, timers := t \<rparr>)"

definition fetchIncidentData ::
  "store_methods \<Rightarrow> IncidentsFiltersType option \<Rightarrow> bool \<Rightarrow> Incidents \<Rightarrow> Incidents" where
  "fetchIncidentData M fs isOnMount s =
     s\<lparr> store := call M (UpdateIncidentFilters fs isOnMount) (store s),
        location_updates := Suc (location_updates s) \<rparr>"

definition handleFiltersChange ::
  "store_methods \<Rightarrow> IncidentsFiltersType \<Rightarrow> bool \<Rightarrow> Incidents \<Rightarrow> Incidents" where
  "handleFiltersChange M fs isOnMount s =
     (let s1 = s\<lparr> filters := Some fs, selectedIncidentIds := [] \<rparr>;
          s2 = (if \<not> isOnMount
                then s1\<lparr> pagination :=
                           \<lparr> pg_start = 1, pg_end = incidentsItemsPerPage (store s1) \<rparr> \<rparr>
                else s1);
          s3 = clearPollingInterval s2;
          s4 = setPollingInterval (Some fs) isOnMount s3
      in fetchIncidentData M (Some fs) isOnMount s4)"

definition onChangeCursor :: "store_methods \<Rightarrow> string \<Rightarrow> direction \<Rightarrow> Incidents \<Rightarrow> Incidents" where
  "onChangeCursor M cursor dir s =
     (let st = call M (SetIncidentsCursor cursor) (store s)
      in s\<lparr> store := st,
            selectedIncidentIds := [],
            pagination :=
              \<lparr> pg_start = pg_start (pagination s)
                   + incidentsItemsPerPage st * (if dir = Prev then - 1 else 1),
                pg_end = pg_end (pagination s)
                   + incidentsItemsPerPage st * (if dir = Prev then - 1 else 1) \<rparr> \<rparr>)"

definition handleChangeItemsPerPage :: "store_methods \<Rightarrow> int \<Rightarrow> Incidents \<Rightarrow> Incidents" where
  "handleChangeItemsPerPage M v s =
     (let st = call M (SetIncidentsItemsPerPage v) (store s)
      in s\<lparr> store := st,
            selectedIncidentIds := [],
            pagination := \<lparr> pg_start = 1, pg_end = incidentsItemsPerPage st \<rparr> \<rparr>)"

definition handleSelectedIncidentIdsChange :: "string list \<Rightarrow> Incidents \<Rightarrow> Incidents" where
  "handleSelectedIncidentIdsChange ids s =
     (let s1 = s\<lparr> selectedIncidentIds := ids \<rparr>
      in if length ids > 0 then clearPollingInterval s1
         else setPollingInterval (filters s1) False s1)"

definition getBulkActionClickHandler ::
  "store_methods \<Rightarrow> jsval \<Rightarrow> event_arg \<Rightarrow> Incidents \<Rightarrow> Incidents" where
  "getBulkActionClickHandler M act event s =
     (let selected = selectedIncidentIds s;
          affected = affectedRows s;
          s1 = setPollingInterval (filters s) False s;
          s2 = s1\<lparr> store := (store s1)\<lparr> liveUpdatesPaused := True \<rparr> \<rparr>;
          delay = (case event of NumberEvent n \<Rightarrow> n | OtherEvent \<Rightarrow> Num 0);
          s3 = s2\<lparr> selectedIncidentIds := [],
                   affectedRows := foldl (\<lambda>acc incidentId. acc(incidentId \<mapsto> True)) affected selected \<rparr>
      in s3\<lparr> store := call M (BulkAction act selected delay) (store s3) \<rparr>)"

definition onIncidentsUpdateClick :: "store_methods \<Rightarrow> Incidents \<Rightarrow> Incidents" where
  "onIncidentsUpdateClick M s =
     (let s1 = s\<lparr> affectedRows := Map.empty \<rparr>
      in s1\<lparr> store := call M UpdateIncidents (store s1) \<rparr>)"

definition Incidents_componentWillUnmount :: "Incidents \<Rightarrow> Incidents" where
  "Incidents_componentWillUnmount s = clearPollingInterval s"

text \<open>An interval that is still running fires: its callback fetches the incidents.\<close>

definition pollingTick :: "store_methods \<Rightarrow> nat \<Rightarrow> Incidents \<Rightarrow> Incidents" where
  "pollingTick M h s =
     (case find (\<lambda>e. fst e = h) (active (timers s)) of
        None \<Rightarrow> s
      | Some (_, (fs, isOnMount), _) \<Rightarrow> fetchIncidentData M fs isOnMount s)"

text \<open>The callbacks of the page as events, and the page as a transition system.\<close>

datatype incidents_event =
    FiltersChange IncidentsFiltersType bool
  | ChangeCursor string direction
  | ChangeItemsPerPage int
  | SelectedIncidentIdsChange "string list"
  | BulkActionClick jsval event_arg
  | IncidentsUpdateClick
  | PollingTick nat
  | Unmount

fun Incidents_step :: "store_methods \<Rightarrow> Incidents \<Rightarrow> incidents_event \<Rightarrow> Incidents" where
  "Incidents_step M s (FiltersChange fs isOnMount) = handleFiltersChange M fs isOnMount s"
| "Incidents_step M s (ChangeCursor cursor dir) = onChangeCursor M cursor dir s"
| "Incidents_step M s (ChangeItemsPerPage v) = handleChangeItemsPerPage M v s"
| "Incidents_step M s (SelectedIncidentIdsChange ids) = handleSelectedIncidentIdsChange ids s"
| "Incidents_step M s (BulkActionClick act event) = getBulkActionClickHandler M act event s"
| "Incidents_step M s IncidentsUpdateClick = onIncidentsUpdateClick M s"
| "Incidents_step M s (PollingTick h) = pollingTick M h s"
| "Incidents_step M s Unmount = Incidents_componentWillUnmount s"

fun Incidents_run :: "store_methods \<Rightarrow> Incidents \<Rightarrow> incidents_event list \<Rightarrow> Incidents" where
  "Incidents_run M s [] = s"
| "Incidents_run M s (e # es) = Incidents_run M (Incidents_step M s e) es"

text \<open>
  When the rendered page lets an event happen. The bulk action buttons and the silence
  dropdown are rendered with \<^verbatim>\<open>disabled={!hasSelected}\<close>, where \<^verbatim>\<open>hasSelected\<close> is
  \<^verbatim>\<open>selectedIncidentIds.length > 0\<close>. The table reports an empty selection only when
  the last selected row is unchecked, so while some row is selected.
\<close>

fun rendered_enabled :: "Incidents \<Rightarrow> incidents_event \<Rightarrow> bool" where
  "rendered_enabled s (BulkActionClick act event) = (length (selectedIncidentIds s) > 0)"
| "rendered_enabled s (SelectedIncidentIdsChange ids) =
     (length ids > 0 \<or> length (selectedIncidentIds s) > 0)"
| "rendered_enabled s _ = True"

fun rendered_run :: "store_methods \<Rightarrow> Incidents \<Rightarrow> incidents_event list \<Rightarrow> bool" where
  "rendered_run M s [] = True"
| "rendered_run M s (e # es) =
     (rendered_enabled s e \<and> rendered_run M (Incidents_step M s e) es)"

section \<open>The Integrations page\<close>

record AlertReceiveChannel =
  channel_id :: string

text \<open>
  The tabs of the settings drawer the page names, and a tab taken from \<^verbatim>\<open>query.tab\<close>.
\<close>

datatype IntegrationSettingsTab = Heartbeat | HowToConnect | QueryTab string

record integrations_query =
  q_id :: "string option"
  q_tab :: "string option"

text \<open>
  How the promise of \<^verbatim>\<open>alertReceiveChannelStore.loadItem(query.id, true)\<close> settles: it
  is rejected with an error, or resolved with a channel or with nothing.
\<close>

datatype 'x load_outcome = Rejected 'x | Resolved "AlertReceiveChannel option"

datatype channel_store_call =
    UpdateItems "string option"
  | LoadItem string bool
  | UpdateItem "string option"
  | DeleteAlertReceiveChannel string

text \<open>
  The component: its React state (\<^verbatim>\<open>IntegrationsState\<close>, with the filters reduced to
  their search term), its fields \<^verbatim>\<open>alertReceiveChanneltoPoll\<close> and
  \<^verbatim>\<open>alertReceiveChannelTimerId\<close>, what it reads and assigns in the store (the selected
  channel and the search result), the calls it makes to the channel store, the ids it
  passes to \<^verbatim>\<open>LocationHelper.update\<close>, and the intervals it has running. The type of
  \<^verbatim>\<open>errorData\<close> belongs to the error wrapper and is a type parameter.
\<close>

record 'e Integrations =
  integrationsFilters :: string
  showCreateIntegrationModal :: bool
  errorData :: 'e
  alertReceiveChannelToShowSettings :: "string option"
  integrationSettingsTab :: "IntegrationSettingsTab option"
  alertReceiveChanneltoPoll :: "string \<rightharpoonup> int"
  alertReceiveChannelTimerId :: "nat option"
  selectedAlertReceiveChannel :: "string option"
  searchResult :: "AlertReceiveChannel list"
  channel_calls :: "channel_store_call list"
  location_ids :: "string option list"
  tick_timers :: "unit timers"

text \<open>
  The initial component, before \<^verbatim>\<open>componentDidMount\<close>; \<open>init\<close> is what
  \<^verbatim>\<open>initErrorDataState()\<close> returns.
\<close>

definition Integrations_initial :: "'e \<Rightarrow> 'e Integrations" where
  "Integrations_initial init =
     \<lparr> integrationsFilters = [],
       showCreateIntegrationModal = False,
       errorData = init,
       alertReceiveChannelToShowSettings = None,
       integrationSettingsTab = None,
       alertReceiveChanneltoPoll = Map.empty,
       alertReceiveChannelTimerId = None,
       selectedAlertReceiveChannel = None,
       searchResult = [],
       channel_calls = [],
       location_ids = [],
       tick_timers = no_timers \<rparr>"

definition truthy_string :: "string option \<Rightarrow> bool" where
  "truthy_string v = (case v of None \<Rightarrow> False | Some s \<Rightarrow> s \<noteq> [])"

definition setSelectedAlertReceiveChannel :: "string option \<Rightarrow> 'e Integrations \<Rightarrow> 'e Integrations" where
  "setSelectedAlertReceiveChannel alertReceiveChannelId s =
     s\<lparr> selectedAlertReceiveChannel := alertReceiveChannelId,
        location_ids := location_ids s @ [alertReceiveChannelId] \<rparr>"

text \<open>\<^verbatim>\<open>searchResult[0]?.id\<close>\<close>

definition first_id :: "AlertReceiveChannel list \<Rightarrow> string option" where
  "first_id rs = (case rs of [] \<Rightarrow> None | r # _ \<Rightarrow> Some (channel_id r))"

text \<open>
  \<^verbatim>\<open>parseQueryParams\<close>. The helpers \<^verbatim>\<open>initErrorDataState\<close> and
  \<^verbatim>\<open>getWrongTeamResponseInfo\<close> of the error wrapper are the parameters \<open>init\<close> and
  \<open>wrongTeam\<close>; \<open>outcome\<close> is how the awaited \<^verbatim>\<open>loadItem\<close> settles. The
  \<^verbatim>\<open>catch\<close> handler returns what \<^verbatim>\<open>setState\<close> returns, \<^verbatim>\<open>undefined\<close>, so a
  rejection takes the early return as a resolution with nothing does.
\<close>

definition parseQueryParams ::
  "'e \<Rightarrow> ('x \<Rightarrow> 'e) \<Rightarrow> integrations_query \<Rightarrow> 'x load_outcome \<Rightarrow> 'e Integrations \<Rightarrow> 'e Integrations" where
  "parseQueryParams init wrongTeam q outcome s =
     (let s0 = s\<lparr> errorData := init \<rparr>;
          result = searchResult s0;
          selected = selectedAlertReceiveChannel s0;
          finish = (\<lambda>sel s'.
            setSelectedAlertReceiveChannel
              (if \<not> truthy_string sel then first_id result else sel) s')
      in case q_id q of
           None \<Rightarrow> finish selected s0
         | Some i \<Rightarrow>
             if i = [] then finish selected s0
             else
               (let s1 = s0\<lparr> channel_calls := channel_calls s0 @ [LoadItem i True] \<rparr>
                in case outcome of
                     Rejected err \<Rightarrow> s1\<lparr> errorData := wrongTeam err \<rparr>
                   | Resolved None \<Rightarrow> s1
                   | Resolved (Some alertReceiveChannel) \<Rightarrow>
                       (let selected' = (if channel_id alertReceiveChannel \<noteq> []
                                         then Some (channel_id alertReceiveChannel) else selected);
                            s2 = (case q_tab q of
                                    None \<Rightarrow> s1
                                  | Some tab \<Rightarrow>
                                      if tab = [] then s1
                                      else s1\<lparr> integrationSettingsTab := Some (QueryTab tab),
                                              alertReceiveChannelToShowSettings := Some i \<rparr>)
                        in finish selected' s2)))"

text \<open>
  The continuation of \<^verbatim>\<open>handleCreateNewAlertReceiveChannel\<close> once the channel is
  created: \<open>refreshed\<close> is the search result after \<^verbatim>\<open>updateItems()\<close>, \<open>display_name\<close>
  is \<^verbatim>\<open>getIntegration(alertReceiveChannel)?.display_name\<close>.
\<close>

definition handleCreateNewAlertReceiveChannel ::
  "AlertReceiveChannel \<Rightarrow> AlertReceiveChannel list \<Rightarrow> string option \<Rightarrow>
   'e Integrations \<Rightarrow> 'e Integrations" where
  "handleCreateNewAlertReceiveChannel alertReceiveChannel refreshed display_name s =
     (let s1 = s\<lparr> channel_calls := channel_calls s @ [UpdateItems None],
                  searchResult := refreshed \<rparr>;
          s2 = setSelectedAlertReceiveChannel (Some (channel_id alertReceiveChannel)) s1;
          s3 = s2\<lparr> alertReceiveChannelToShowSettings := Some (channel_id alertReceiveChannel),
                   integrationSettingsTab := Some HowToConnect \<rparr>
      in if display_name = Some ''Grafana Alerting'' then
           (let s4 = s3\<lparr> alertReceiveChanneltoPoll :=
                           (alertReceiveChanneltoPoll s3)(channel_id alertReceiveChannel \<mapsto> 200) \<rparr>
            in if alertReceiveChannelTimerId s4 = None then
                 (case setInterval () 3000 (tick_timers s4) of
                    (h, t) \<Rightarrow> s4\<lparr> alertReceiveChannelTimerId := Some h, tick_timers := t \<rparr>)
               else s4)
         else s3)"

text \<open>
  The property key an optional id is converted to: \<^verbatim>\<open>undefined in obj\<close> and
  \<^verbatim>\<open>obj[undefined]\<close> address the property named \<^verbatim>\<open>"undefined"\<close>.
\<close>

definition property_key :: "string option \<Rightarrow> string" where
  "property_key v = (case v of None \<Rightarrow> ''undefined'' | Some k \<Rightarrow> k)"

definition checkTimerTick :: "'e Integrations \<Rightarrow> 'e Integrations" where
  "checkTimerTick s =
     (let k = property_key (selectedAlertReceiveChannel s)
      in case alertReceiveChanneltoPoll s k of
           None \<Rightarrow> s
         | Some counter \<Rightarrow>
             if counter > 0 then
               s\<lparr> channel_calls := channel_calls s @ [UpdateItem (selectedAlertReceiveChannel s)],
                  alertReceiveChanneltoPoll := (alertReceiveChanneltoPoll s)(k \<mapsto> counter - 1) \<rparr>
             else
               s\<lparr> alertReceiveChanneltoPoll := (alertReceiveChanneltoPoll s)(k := None) \<rparr>)"

text \<open>
  \<^verbatim>\<open>handleDeleteAlertReceiveChannel\<close>: what runs at once, and the continuation once the
  channel is deleted and the list refreshed.
\<close>

definition handleDeleteAlertReceiveChannel :: "string \<Rightarrow> 'e Integrations \<Rightarrow> 'e Integrations" where
  "handleDeleteAlertReceiveChannel alertReceiveChannelId s =
     (let s1 = (case alertReceiveChanneltoPoll s alertReceiveChannelId of
                  None \<Rightarrow> s
                | Some counter \<Rightarrow>
                    if counter \<noteq> 0
                    then s\<lparr> alertReceiveChanneltoPoll :=
                              (alertReceiveChanneltoPoll s)(alertReceiveChannelId := None) \<rparr>
                    else s)
      in s1\<lparr> channel_calls := channel_calls s1 @ [DeleteAlertReceiveChannel alertReceiveChannelId] \<rparr>)"

definition handleDeleteAlertReceiveChannel_then ::
  "string \<Rightarrow> AlertReceiveChannel list \<Rightarrow> 'e Integrations \<Rightarrow> 'e Integrations" where
  "handleDeleteAlertReceiveChannel_then alertReceiveChannelId refreshed s =
     (let s1 = s\<lparr> channel_calls := channel_calls s @ [UpdateItems None],
                  searchResult := refreshed \<rparr>
      in if Some alertReceiveChannelId = selectedAlertReceiveChannel s1
         then setSelectedAlertReceiveChannel (first_id (searchResult s1)) s1
         else s1)"

text \<open>
  \<^verbatim>\<open>applyFilters\<close>, with the continuation of \<^verbatim>\<open>updateItems(searchTerm)\<close>:
  \<open>refreshed\<close> is the search result the store holds when the promise resolves.
\<close>

definition applyFilters :: "AlertReceiveChannel list \<Rightarrow> 'e Integrations \<Rightarrow> 'e Integrations" where
  "applyFilters refreshed s =
     (let s1 = s\<lparr> channel_calls := channel_calls s @ [UpdateItems (Some (integrationsFilters s))],
                  searchResult := refreshed \<rparr>;
          result = searchResult s1
      in if find (\<lambda>alertReceiveChannel.
                    Some (channel_id alertReceiveChannel) = selectedAlertReceiveChannel s1) result
            = None
         then s1\<lparr> selectedAlertReceiveChannel :=
                    (if length result \<noteq> 0 then Some (channel_id (hd result)) else None) \<rparr>
         else s1)"

definition handleIntegrationsFiltersChange :: "string \<Rightarrow> 'e Integrations \<Rightarrow> 'e Integrations" where
  "handleIntegrationsFiltersChange searchTerm s = s\<lparr> integrationsFilters := searchTerm \<rparr>"

definition handleAlertReceiveChannelSelect :: "string \<Rightarrow> 'e Integrations \<Rightarrow> 'e Integrations" where
  "handleAlertReceiveChannelSelect i s = setSelectedAlertReceiveChannel (Some i) s"

definition Integrations_componentWillUnmount :: "'e Integrations \<Rightarrow> 'e Integrations" where
  "Integrations_componentWillUnmount s =
     s\<lparr> tick_timers := clearInterval (alertReceiveChannelTimerId s) (tick_timers s) \<rparr>"

datatype 'x integrations_event =
    QueryParsed integrations_query "'x load_outcome"
  | ChannelCreated AlertReceiveChannel "AlertReceiveChannel list" "string option"
  | TimerTick
  | DeleteRequested string
  | ChannelDeleted string "AlertReceiveChannel list"
  | FiltersChanged string
  | FiltersApplied "AlertReceiveChannel list"
  | ChannelSelected string
  | IntegrationsUnmount

fun Integrations_step ::
  "'e \<Rightarrow> ('x \<Rightarrow> 'e) \<Rightarrow> 'e Integrations \<Rightarrow> 'x integrations_event \<Rightarrow> 'e Integrations" where
  "Integrations_step init wrongTeam s (QueryParsed q outcome) =
     parseQueryParams init wrongTeam q outcome s"
| "Integrations_step init wrongTeam s (ChannelCreated c refreshed display_name) =
     handleCreateNewAlertReceiveChannel c refreshed display_name s"
| "Integrations_step init wrongTeam s TimerTick = checkTimerTick s"
| "Integrations_step init wrongTeam s (DeleteRequested i) = handleDeleteAlertReceiveChannel i s"
| "Integrations_step init wrongTeam s (ChannelDeleted i refreshed) =
     handleDeleteAlertReceiveChannel_then i refreshed s"
| "Integrations_step init wrongTeam s (FiltersChanged searchTerm) =
     handleIntegrationsFiltersChange searchTerm s"
| "Integrations_step init wrongTeam s (FiltersApplied refreshed) = applyFilters refreshed s"
| "Integrations_step init wrongTeam s (ChannelSelected i) = handleAlertReceiveChannelSelect i s"
| "Integrations_step init wrongTeam s IntegrationsUnmount = Integrations_componentWillUnmount s"

fun Integrations_run ::
  "'e \<Rightarrow> ('x \<Rightarrow> 'e) \<Rightarrow> 'e Integrations \<Rightarrow> 'x integrations_event list \<Rightarrow> 'e Integrations" where
  "Integrations_run init wrongTeam s [] = s"
| "Integrations_run init wrongTeam s (e # es) =
     Integrations_run init wrongTeam (Integrations_step init wrongTeam s e) es"

section \<open>Invariants and sample collaborators\<close>



text \<open>
  The only interval of the Incidents page that runs is the one \<^verbatim>\<open>pollingIntervalId\<close>
  holds, and none runs while rows are selected.
\<close>

definition tracked_only :: "Incidents \<Rightarrow> bool" where
  "tracked_only s \<longleftrightarrow>
     map fst (active (timers s)) = (case pollingIntervalId s of None \<Rightarrow> [] | Some h \<Rightarrow> [h])
     \<and> (length (selectedIncidentIds s) > 0 \<longrightarrow> pollingIntervalId s = None)"

text \<open>
  Every interval of the Integrations page that runs is the one
  \<^verbatim>\<open>alertReceiveChannelTimerId\<close> holds.
\<close>

definition timer_tracked :: "'e Integrations \<Rightarrow> bool" where
  "timer_tracked s \<longleftrightarrow>
     (\<forall>h \<in> set (map fst (active (tick_timers s))). alertReceiveChannelTimerId s = Some h)"

definition counters_bounded :: "'e Integrations \<Rightarrow> bool" where
  "counters_bounded s \<longleftrightarrow>
     (\<forall>k c. alertReceiveChanneltoPoll s k = Some c \<longrightarrow> 0 \<le> c \<and> c \<le> 200)"

text \<open>
  Collaborators to run the pages with on concrete inputs: a store whose two setters
  assign their field and whose other methods leave the fields alone, an empty store, a
  query without parameters, and the Incidents page constructed from them (no string
  converts to a number).
\<close>

fun assigning_store :: store_methods where
  "assigning_store (SetIncidentsCursor c) st = st\<lparr> incidentsCursor := JString c \<rparr>"
| "assigning_store (SetIncidentsItemsPerPage v) st = st\<lparr> incidentsItemsPerPage := v \<rparr>"
| "assigning_store _ st = st"

definition store0 :: alertGroupStore where
  "store0 = \<lparr> incidentsCursor = JUndefined, incidentsItemsPerPage = 0,
              liveUpdatesPaused = False, calls = [] \<rparr>"

definition query0 :: query where
  "query0 = \<lparr> q_cursor = JUndefined, q_start = JUndefined, q_perpage = JUndefined \<rparr>"

definition incidents0 :: Incidents where
  "incidents0 = Incidents_constructor (\<lambda>x. NaN) assigning_store store0 no_timers query0"

section \<open>Properties of the authorization utility\<close>

lemma roleMapping_cases:
  "roleMapping r \<le> roleMapping m \<longleftrightarrow>
     r = Admin \<or> (r = Editor \<and> (m = Editor \<or> m = Viewer)) \<or> (r = Viewer \<and> m = Viewer)"
  by (cases r; cases m) simp_all

text \<open>
  Claim C1. For every user action, \<^verbatim>\<open>isUserActionAllowed\<close> returns, when the
  \<^verbatim>\<open>accessControlOnCall\<close> toggle is enabled, true exactly when the permissions
  dictionary of the current user holds a true entry for the permission string of the
  action; with the toggle disabled it returns
  \<^verbatim>\<open>userHasMinimumRequiredRole(fallbackMinimumRoleRequired)\<close>. Nothing else enters the
  decision: two hosts that agree on the toggle, on that entry and on the role of the user
  decide alike.
\<close>

theorem isUserActionAllowed_decision:
  "isUserActionAllowed h ua =
     (if accessControlOnCall h = Some True
      then (\<exists>m. permissions h = Some m \<and> m (permission ua) = Some True)
      else userHasMinimumRequiredRole h (fallbackMinimumRoleRequired ua))
   \<and> ((accessControlOnCall h' = Some True \<longleftrightarrow> accessControlOnCall h = Some True)
        \<and> ((\<exists>m. permissions h' = Some m \<and> m (permission ua) = Some True)
             \<longleftrightarrow> (\<exists>m. permissions h = Some m \<and> m (permission ua) = Some True))
        \<and> orgRole h' = orgRole h
      \<longrightarrow> isUserActionAllowed h' ua = isUserActionAllowed h ua)"
proof -
  have eq: "\<And>g. isUserActionAllowed g ua =
     (if accessControlOnCall g = Some True
      then (\<exists>m. permissions g = Some m \<and> m (permission ua) = Some True)
      else userHasMinimumRequiredRole g (fallbackMinimumRoleRequired ua))"
    by (auto simp: isUserActionAllowed_def split: option.splits)
  show ?thesis
    unfolding eq by (simp add: userHasMinimumRequiredRole_def)
qed

theorem isUserActionAllowed_decision_witness:
  "isUserActionAllowed
     \<lparr> orgRole = Viewer,
       permissions = Some (Map.empty(''grafana-oncall-app.schedules:write'' \<mapsto> True)),
       accessControlOnCall = Some True \<rparr>
     (UserActions SchedulesWrite)
   \<and> \<not> isUserActionAllowed
     \<lparr> orgRole = Viewer,
       permissions = Some (Map.empty(''grafana-oncall-app.schedules:write'' \<mapsto> True)),
       accessControlOnCall = None \<rparr>
     (UserActions SchedulesWrite)
   \<and> isUserActionAllowed
     \<lparr> orgRole = Viewer,
       permissions = Some (Map.empty(''grafana-oncall-app.schedules:write'' \<mapsto> True,
                                       ''teams:write'' \<mapsto> False)),
       accessControlOnCall = Some True \<rparr>
     (UserActions SchedulesWrite)"
  using isUserActionAllowed_decision
    [of "\<lparr> orgRole = Viewer,
           permissions = Some (Map.empty(''grafana-oncall-app.schedules:write'' \<mapsto> True)),
           accessControlOnCall = Some True \<rparr>"
        "UserActions SchedulesWrite"
        "\<lparr> orgRole = Viewer,
           permissions = Some (Map.empty(''grafana-oncall-app.schedules:write'' \<mapsto> True,
                                           ''teams:write'' \<mapsto> False)),
           accessControlOnCall = Some True \<rparr>"]
    isUserActionAllowed_decision
    [of "\<lparr> orgRole = Viewer,
           permissions = Some (Map.empty(''grafana-oncall-app.schedules:write'' \<mapsto> True)),
           accessControlOnCall = None \<rparr>"
        "UserActions SchedulesWrite"]
  by (simp add: UserActions_def constructAction_def generatePermissionString_def
      ONCALL_PERMISSION_PREFIX_def userHasMinimumRequiredRole_def)

text \<open>
  Claim C2. \<^verbatim>\<open>userHasMinimumRequiredRole(m)\<close> is a threshold check under the order
  Admin above Editor above Viewer: it is true exactly when the role of the current user
  is Admin, or Editor with \<open>m\<close> Editor or Viewer, or Viewer with \<open>m\<close> Viewer. So it is
  monotone: what a Viewer is granted an Editor is granted, and what an Editor is granted
  an Admin is granted.
\<close>

theorem userHasMinimumRequiredRole_threshold:
  "(userHasMinimumRequiredRole h m \<longleftrightarrow>
      orgRole h = Admin
      \<or> (orgRole h = Editor \<and> (m = Editor \<or> m = Viewer))
      \<or> (orgRole h = Viewer \<and> m = Viewer))
   \<and> (userHasMinimumRequiredRole (h\<lparr>orgRole := Viewer\<rparr>) m
        \<longrightarrow> userHasMinimumRequiredRole (h\<lparr>orgRole := Editor\<rparr>) m)
   \<and> (userHasMinimumRequiredRole (h\<lparr>orgRole := Editor\<rparr>) m
        \<longrightarrow> userHasMinimumRequiredRole (h\<lparr>orgRole := Admin\<rparr>) m)"
  by (simp add: userHasMinimumRequiredRole_def roleMapping_cases)

theorem userHasMinimumRequiredRole_threshold_witness:
  "userHasMinimumRequiredRole
     \<lparr> orgRole = Viewer, permissions = None, accessControlOnCall = None \<rparr> Viewer
   \<and> userHasMinimumRequiredRole
     \<lparr> orgRole = Editor, permissions = None, accessControlOnCall = None \<rparr> Viewer
   \<and> userHasMinimumRequiredRole
     \<lparr> orgRole = Admin, permissions = None, accessControlOnCall = None \<rparr> Viewer
   \<and> \<not> userHasMinimumRequiredRole
     \<lparr> orgRole = Viewer, permissions = None, accessControlOnCall = None \<rparr> Editor"
  using userHasMinimumRequiredRole_threshold
    [of "\<lparr> orgRole = Viewer, permissions = None, accessControlOnCall = None \<rparr>" Viewer]
    userHasMinimumRequiredRole_threshold
    [of "\<lparr> orgRole = Viewer, permissions = None, accessControlOnCall = None \<rparr>" Editor]
  by simp






section \<open>Properties of the Incidents page\<close>


lemma call_calls: "calls (call M c st) = calls st @ [c]"
  by (simp add: call_def)










lemma foldl_affected:
  "foldl (\<lambda>acc incidentId. acc(incidentId \<mapsto> True)) m ids k =
     (if k \<in> set ids then Some True else m k)"
  by (induction ids arbitrary: m) auto

lemma bulk_selected: "selectedIncidentIds (getBulkActionClickHandler M act event s) = []"
  by (simp add: getBulkActionClickHandler_def Let_def setPollingInterval_def setInterval_def)

lemma bulk_affected:
  "affectedRows (getBulkActionClickHandler M act event s) k =
     (if k \<in> set (selectedIncidentIds s) then Some True else affectedRows s k)"
  by (simp add: getBulkActionClickHandler_def Let_def setPollingInterval_def setInterval_def
      foldl_affected)

lemma bulk_calls:
  "calls (store (getBulkActionClickHandler M act event s)) =
     calls (store s) @ [BulkAction act (selectedIncidentIds s)
                          (case event of NumberEvent n \<Rightarrow> n | OtherEvent \<Rightarrow> Num 0)]"
  by (simp add: getBulkActionClickHandler_def Let_def setPollingInterval_def setInterval_def
      call_calls)

text \<open>
  Claim C4. A bulk action invoked with the selected incident ids \<open>S\<close> empties
  \<^verbatim>\<open>selectedIncidentIds\<close>, sets \<^verbatim>\<open>affectedRows[id] = true\<close> for every id of \<open>S\<close> and
  leaves every other entry of \<^verbatim>\<open>affectedRows\<close> as it was (an entry that was already
  \<^verbatim>\<open>true\<close> stays so, and the keys are the old keys and \<open>S\<close>), and calls
  \<^verbatim>\<open>bulkAction\<close> of the store exactly once, with \<^verbatim>\<open>alert_group_pks\<close> equal to \<open>S\<close>
  and with the delay the event when the event is a number, 0 otherwise.
\<close>

theorem getBulkActionClickHandler_effect:
  "selectedIncidentIds (getBulkActionClickHandler M act event s) = []
   \<and> (\<forall>i \<in> set (selectedIncidentIds s).
        affectedRows (getBulkActionClickHandler M act event s) i = Some True)
   \<and> (k \<notin> set (selectedIncidentIds s) \<longrightarrow>
        affectedRows (getBulkActionClickHandler M act event s) k = affectedRows s k)
   \<and> (affectedRows s k = Some True \<longrightarrow>
        affectedRows (getBulkActionClickHandler M act event s) k = Some True)
   \<and> dom (affectedRows (getBulkActionClickHandler M act event s)) =
        dom (affectedRows s) \<union> set (selectedIncidentIds s)
   \<and> (event = NumberEvent n \<longrightarrow>
        calls (store (getBulkActionClickHandler M act event s)) =
          calls (store s) @ [BulkAction act (selectedIncidentIds s) n])
   \<and> (event = OtherEvent \<longrightarrow>
        calls (store (getBulkActionClickHandler M act event s)) =
          calls (store s) @ [BulkAction act (selectedIncidentIds s) (Num 0)])"
proof -
  have keys: "dom (affectedRows (getBulkActionClickHandler M act event s)) =
        dom (affectedRows s) \<union> set (selectedIncidentIds s)"
    by (auto simp: bulk_affected dom_def)
  show ?thesis
    using keys by (simp add: bulk_selected bulk_affected bulk_calls)
qed

theorem getBulkActionClickHandler_effect_witness:
  "selectedIncidentIds (Incidents_run assigning_store incidents0
       [FiltersChange [] True, SelectedIncidentIdsChange [''z''],
        BulkActionClick (JString ''acknowledge'') OtherEvent,
        SelectedIncidentIdsChange [''a'', ''b'']]) = [''a'', ''b'']
   \<and> affectedRows (Incidents_run assigning_store incidents0
       [FiltersChange [] True, SelectedIncidentIdsChange [''z''],
        BulkActionClick (JString ''acknowledge'') OtherEvent,
        SelectedIncidentIdsChange [''a'', ''b'']]) ''z'' = Some True
   \<and> affectedRows (getBulkActionClickHandler assigning_store (JString ''silence'')
        (NumberEvent (Num 3600))
        (Incidents_run assigning_store incidents0
          [FiltersChange [] True, SelectedIncidentIdsChange [''z''],
           BulkActionClick (JString ''acknowledge'') OtherEvent,
           SelectedIncidentIdsChange [''a'', ''b'']])) ''z'' = Some True
   \<and> affectedRows (getBulkActionClickHandler assigning_store (JString ''silence'')
        (NumberEvent (Num 3600))
        (Incidents_run assigning_store incidents0
          [FiltersChange [] True, SelectedIncidentIdsChange [''z''],
           BulkActionClick (JString ''acknowledge'') OtherEvent,
           SelectedIncidentIdsChange [''a'', ''b'']])) ''a'' = Some True
   \<and> calls (store (getBulkActionClickHandler assigning_store (JString ''silence'')
        (NumberEvent (Num 3600))
        (Incidents_run assigning_store incidents0
          [FiltersChange [] True, SelectedIncidentIdsChange [''z''],
           BulkActionClick (JString ''acknowledge'') OtherEvent,
           SelectedIncidentIdsChange [''a'', ''b'']]))) =
       [UpdateBulkActions, UpdateSilenceOptions, UpdateIncidentFilters (Some []) True,
        BulkAction (JString ''acknowledge'') [''z''] (Num 0),
        BulkAction (JString ''silence'') [''a'', ''b''] (Num 3600)]"
proof -
  let ?s = "Incidents_run assigning_store incidents0
       [FiltersChange [] True, SelectedIncidentIdsChange [''z''],
        BulkActionClick (JString ''acknowledge'') OtherEvent,
        SelectedIncidentIdsChange [''a'', ''b'']]"
  have pre: "selectedIncidentIds ?s = [''a'', ''b''] \<and> affectedRows ?s ''z'' = Some True
     \<and> calls (store ?s) =
       [UpdateBulkActions, UpdateSilenceOptions, UpdateIncidentFilters (Some []) True,
        BulkAction (JString ''acknowledge'') [''z''] (Num 0)]"
    by code_simp
  show ?thesis
    using pre
      getBulkActionClickHandler_effect
        [of assigning_store "JString ''silence''" "NumberEvent (Num 3600)" ?s "''z''" "Num 3600"]
    by simp
qed

lemma clear_tracked:
  assumes "map fst (active (timers s)) = (case pollingIntervalId s of None \<Rightarrow> [] | Some h \<Rightarrow> [h])"
  shows "active (timers (clearPollingInterval s)) = []"
    and "pollingIntervalId (clearPollingInterval s) = None"
    and "selectedIncidentIds (clearPollingInterval s) = selectedIncidentIds s"
  using assms
  by (auto simp: clearPollingInterval_def clearInterval_def split: option.splits)

lemma set_after_none:
  assumes "active (timers s) = []"
  shows "map fst (active (timers (setPollingInterval fs m s))) = [next_handle (timers s)]"
    and "pollingIntervalId (setPollingInterval fs m s) = Some (next_handle (timers s))"
    and "selectedIncidentIds (setPollingInterval fs m s) = selectedIncidentIds s"
  using assms by (simp_all add: setPollingInterval_def setInterval_def)

lemma fetchIncidentData_frame:
  "timers (fetchIncidentData M fs m s) = timers s"
  "pollingIntervalId (fetchIncidentData M fs m s) = pollingIntervalId s"
  "selectedIncidentIds (fetchIncidentData M fs m s) = selectedIncidentIds s"
  by (simp_all add: fetchIncidentData_def)

lemma tracked_only_step:
  assumes "tracked_only s" and "rendered_enabled s e"
  shows "tracked_only (Incidents_step M s e)"
proof (cases e)
  case (FiltersChange fs m)
  let ?s2 = "(if \<not> m then (s\<lparr> filters := Some fs, selectedIncidentIds := [] \<rparr>)
                \<lparr> pagination := \<lparr> pg_start = 1,
                    pg_end = incidentsItemsPerPage
                      (store (s\<lparr> filters := Some fs, selectedIncidentIds := [] \<rparr>)) \<rparr> \<rparr>
              else s\<lparr> filters := Some fs, selectedIncidentIds := [] \<rparr>)"
  have a: "map fst (active (timers ?s2)) =
             (case pollingIntervalId ?s2 of None \<Rightarrow> [] | Some h \<Rightarrow> [h])"
    using assms(1) by (simp add: tracked_only_def)
  have sel: "selectedIncidentIds ?s2 = []" by simp
  have step: "Incidents_step M s e =
      fetchIncidentData M (Some fs) m (setPollingInterval (Some fs) m (clearPollingInterval ?s2))"
    using FiltersChange by (simp add: handleFiltersChange_def Let_def)
  show ?thesis
    unfolding step tracked_only_def fetchIncidentData_frame
    using set_after_none [OF clear_tracked(1) [OF a]] clear_tracked(3) [OF a] sel
    by simp
next
  case (ChangeCursor c d)
  then show ?thesis using assms(1)
    by (simp add: tracked_only_def onChangeCursor_def Let_def)
next
  case (ChangeItemsPerPage v)
  then show ?thesis using assms(1)
    by (simp add: tracked_only_def handleChangeItemsPerPage_def Let_def)
next
  case (SelectedIncidentIdsChange ids)
  show ?thesis
  proof (cases "length ids > 0")
    case True
    have a: "map fst (active (timers (s\<lparr> selectedIncidentIds := ids \<rparr>))) =
        (case pollingIntervalId (s\<lparr> selectedIncidentIds := ids \<rparr>) of
           None \<Rightarrow> [] | Some h \<Rightarrow> [h])"
      using assms(1) by (simp add: tracked_only_def)
    show ?thesis
      using True SelectedIncidentIdsChange clear_tracked [OF a]
      by (simp add: tracked_only_def handleSelectedIncidentIdsChange_def Let_def)
  next
    case False
    with assms SelectedIncidentIdsChange have "active (timers s) = []"
      by (auto simp: tracked_only_def)
    then have b: "active (timers (s\<lparr> selectedIncidentIds := ids \<rparr>)) = []" by simp
    show ?thesis
      using False SelectedIncidentIdsChange set_after_none [OF b]
      by (simp add: tracked_only_def handleSelectedIncidentIdsChange_def Let_def)
  qed
next
  case (BulkActionClick act ev)
  with assms have b: "active (timers s) = []"
    by (auto simp: tracked_only_def)
  show ?thesis
    using BulkActionClick b
    by (simp add: tracked_only_def getBulkActionClickHandler_def Let_def
        setPollingInterval_def setInterval_def)
next
  case IncidentsUpdateClick
  then show ?thesis using assms(1)
    by (simp add: tracked_only_def onIncidentsUpdateClick_def Let_def)
next
  case (PollingTick h)
  then show ?thesis using assms(1)
    by (simp add: tracked_only_def pollingTick_def fetchIncidentData_def
        split: option.splits prod.splits)
next
  case Unmount
  have a: "map fst (active (timers s)) =
             (case pollingIntervalId s of None \<Rightarrow> [] | Some h \<Rightarrow> [h])"
    using assms(1) by (simp add: tracked_only_def)
  show ?thesis
    using Unmount clear_tracked [OF a]
    by (simp add: tracked_only_def Incidents_componentWillUnmount_def)
qed

lemma tracked_only_run:
  "tracked_only s \<Longrightarrow> rendered_run M s es \<Longrightarrow> tracked_only (Incidents_run M s es)"
  by (induction es arbitrary: s) (auto intro: tracked_only_step)

lemma tracked_only_constructor:
  "active tm = [] \<Longrightarrow> tracked_only (Incidents_constructor S M st tm q)"
  by (simp add: tracked_only_def Incidents_constructor_def Let_def)

lemma clearPollingInterval_active:
  "active (timers (clearPollingInterval s)) =
     filter (\<lambda>e. Some (fst e) \<noteq> pollingIntervalId s) (active (timers s))"
  by (simp add: clearPollingInterval_def clearInterval_def split: option.splits)

lemma setPollingInterval_active:
  "active (timers (setPollingInterval fs m s)) =
     active (timers s) @ [(next_handle (timers s), (fs, m), 15000)]"
  "pollingIntervalId (setPollingInterval fs m s) = Some (next_handle (timers s))"
  by (simp_all add: setPollingInterval_def setInterval_def POLLING_NUM_SECONDS_def)

text \<open>
  Claim C5, as the code has it. Polling on the Incidents page is a plain
  \<^verbatim>\<open>setInterval\<close>/\<^verbatim>\<open>clearInterval\<close> pairing around the one field
  \<^verbatim>\<open>pollingIntervalId\<close>. When the table reports a selection that is not empty, the
  interval the field holds is cleared and the field reset; when it reports an empty one,
  a 15-second interval is started, without clearing. \<^verbatim>\<open>handleFiltersChange\<close> clears the
  interval the field holds and then starts a 15-second one. A bulk action starts a
  15-second one without clearing. At most one interval runs, the one the field holds, in
  every state the rendered page reaches: through event sequences in which a bulk action
  happens only while rows are selected (its buttons are disabled otherwise) and an empty
  selection is reported only while rows are selected.
\<close>

theorem polling_interval_pairing:
  "(length ids > 0 \<longrightarrow>
      pollingIntervalId (handleSelectedIncidentIdsChange ids s) = None
      \<and> active (timers (handleSelectedIncidentIdsChange ids s)) =
          filter (\<lambda>e. Some (fst e) \<noteq> pollingIntervalId s) (active (timers s)))
   \<and> pollingIntervalId (handleSelectedIncidentIdsChange [] s) = Some (next_handle (timers s))
   \<and> active (timers (handleSelectedIncidentIdsChange [] s)) =
        active (timers s) @ [(next_handle (timers s), (filters s, False), 15000)]
   \<and> pollingIntervalId (handleFiltersChange M fs m s) = Some (next_handle (timers s))
   \<and> active (timers (handleFiltersChange M fs m s)) =
        filter (\<lambda>e. Some (fst e) \<noteq> pollingIntervalId s) (active (timers s))
          @ [(next_handle (timers s), (Some fs, m), 15000)]
   \<and> pollingIntervalId (getBulkActionClickHandler M act ev s) = Some (next_handle (timers s))
   \<and> active (timers (getBulkActionClickHandler M act ev s)) =
        active (timers s) @ [(next_handle (timers s), (filters s, False), 15000)]
   \<and> (active tm = [] \<and> rendered_run M (Incidents_constructor S M st tm q) es \<longrightarrow>
        length (active (timers (Incidents_run M (Incidents_constructor S M st tm q) es))) \<le> 1
        \<and> map fst (active (timers (Incidents_run M (Incidents_constructor S M st tm q) es))) =
            (case pollingIntervalId (Incidents_run M (Incidents_constructor S M st tm q) es) of
               None \<Rightarrow> [] | Some h \<Rightarrow> [h]))"
proof -
  have sel: "length ids > 0 \<longrightarrow>
      pollingIntervalId (handleSelectedIncidentIdsChange ids s) = None
      \<and> active (timers (handleSelectedIncidentIdsChange ids s)) =
          filter (\<lambda>e. Some (fst e) \<noteq> pollingIntervalId s) (active (timers s))"
    by (simp add: handleSelectedIncidentIdsChange_def Let_def clearPollingInterval_active)
       (simp add: clearPollingInterval_def)
  have unsel: "pollingIntervalId (handleSelectedIncidentIdsChange [] s) = Some (next_handle (timers s))
   \<and> active (timers (handleSelectedIncidentIdsChange [] s)) =
        active (timers s) @ [(next_handle (timers s), (filters s, False), 15000)]"
    by (simp add: handleSelectedIncidentIdsChange_def Let_def setPollingInterval_active)
  have flt: "pollingIntervalId (handleFiltersChange M fs m s) = Some (next_handle (timers s))
   \<and> active (timers (handleFiltersChange M fs m s)) =
        filter (\<lambda>e. Some (fst e) \<noteq> pollingIntervalId s) (active (timers s))
          @ [(next_handle (timers s), (Some fs, m), 15000)]"
    by (simp add: handleFiltersChange_def Let_def fetchIncidentData_frame
        setPollingInterval_active clearPollingInterval_active)
       (simp add: clearPollingInterval_def clearInterval_def split: option.splits)
  have bulk: "pollingIntervalId (getBulkActionClickHandler M act ev s) = Some (next_handle (timers s))
   \<and> active (timers (getBulkActionClickHandler M act ev s)) =
        active (timers s) @ [(next_handle (timers s), (filters s, False), 15000)]"
    by (simp add: getBulkActionClickHandler_def Let_def setPollingInterval_def setInterval_def
        POLLING_NUM_SECONDS_def)
  have inv: "active tm = [] \<and> rendered_run M (Incidents_constructor S M st tm q) es \<longrightarrow>
        length (active (timers (Incidents_run M (Incidents_constructor S M st tm q) es))) \<le> 1
        \<and> map fst (active (timers (Incidents_run M (Incidents_constructor S M st tm q) es))) =
            (case pollingIntervalId (Incidents_run M (Incidents_constructor S M st tm q) es) of
               None \<Rightarrow> [] | Some h \<Rightarrow> [h])"
  proof
    assume h: "active tm = [] \<and> rendered_run M (Incidents_constructor S M st tm q) es"
    then have t: "tracked_only (Incidents_run M (Incidents_constructor S M st tm q) es)"
      by (simp add: tracked_only_run tracked_only_constructor)
    then have m: "map fst (active (timers (Incidents_run M (Incidents_constructor S M st tm q) es))) =
            (case pollingIntervalId (Incidents_run M (Incidents_constructor S M st tm q) es) of
               None \<Rightarrow> [] | Some h \<Rightarrow> [h])"
      by (simp add: tracked_only_def)
    have "length (active (timers (Incidents_run M (Incidents_constructor S M st tm q) es))) =
            length (case pollingIntervalId (Incidents_run M (Incidents_constructor S M st tm q) es) of
               None \<Rightarrow> [] | Some h \<Rightarrow> [h])"
      using arg_cong [OF m, of length] by simp
    then have "length (active (timers (Incidents_run M (Incidents_constructor S M st tm q) es))) \<le> 1"
      by (simp split: option.splits)
    with m show "length (active (timers (Incidents_run M (Incidents_constructor S M st tm q) es))) \<le> 1
        \<and> map fst (active (timers (Incidents_run M (Incidents_constructor S M st tm q) es))) =
            (case pollingIntervalId (Incidents_run M (Incidents_constructor S M st tm q) es) of
               None \<Rightarrow> [] | Some h \<Rightarrow> [h])"
      by simp
  qed
  from sel unsel flt bulk inv show ?thesis by blast
qed

theorem polling_interval_pairing_witness:
  "active (no_timers :: (IncidentsFiltersType option \<times> bool) timers) = []
   \<and> rendered_run assigning_store incidents0
       [FiltersChange [] True, SelectedIncidentIdsChange [''a''],
        BulkActionClick (JString ''resolve'') OtherEvent,
        SelectedIncidentIdsChange [''b''], SelectedIncidentIdsChange []]
   \<and> length (active (timers (Incidents_run assigning_store incidents0
       [FiltersChange [] True, SelectedIncidentIdsChange [''a''],
        BulkActionClick (JString ''resolve'') OtherEvent,
        SelectedIncidentIdsChange [''b''], SelectedIncidentIdsChange []]))) \<le> 1
   \<and> active (timers (Incidents_run assigning_store incidents0
       [FiltersChange [] True, SelectedIncidentIdsChange [''a''],
        BulkActionClick (JString ''resolve'') OtherEvent,
        SelectedIncidentIdsChange [''b''], SelectedIncidentIdsChange []])) =
       [(3, (Some [], False), 15000)]
   \<and> pollingIntervalId (handleSelectedIncidentIdsChange [''a'']
        (Incidents_run assigning_store incidents0 [FiltersChange [] True])) = None
   \<and> active (timers (handleSelectedIncidentIdsChange [''a'']
        (Incidents_run assigning_store incidents0 [FiltersChange [] True]))) = []"
proof -
  let ?es = "[FiltersChange [] True, SelectedIncidentIdsChange [''a''],
        BulkActionClick (JString ''resolve'') OtherEvent,
        SelectedIncidentIdsChange [''b''], SelectedIncidentIdsChange []]"
  have a: "active (no_timers :: (IncidentsFiltersType option \<times> bool) timers) = []"
    by (simp add: no_timers_def)
  have r: "rendered_run assigning_store incidents0 ?es"
    by code_simp
  have v: "active (timers (Incidents_run assigning_store incidents0 ?es)) =
       [(3, (Some [], False), 15000)]
     \<and> pollingIntervalId (Incidents_run assigning_store incidents0 [FiltersChange [] True]) = Some 1
     \<and> active (timers (Incidents_run assigning_store incidents0 [FiltersChange [] True])) =
         [(1, (Some [], True), 15000)]"
    by code_simp
  have one: "length (active (timers (Incidents_run assigning_store incidents0 ?es))) \<le> 1"
    using polling_interval_pairing
      [where S = "\<lambda>x. NaN" and M = assigning_store and st = store0 and tm = no_timers
         and q = query0 and es = ?es] a r
    unfolding incidents0_def by blast
  have c: "pollingIntervalId (handleSelectedIncidentIdsChange [''a'']
        (Incidents_run assigning_store incidents0 [FiltersChange [] True])) = None
     \<and> active (timers (handleSelectedIncidentIdsChange [''a'']
        (Incidents_run assigning_store incidents0 [FiltersChange [] True]))) = []"
    using polling_interval_pairing
      [where ids = "[''a'']"
         and s = "Incidents_run assigning_store incidents0 [FiltersChange [] True]"] v
    by simp
  from a r v one c show ?thesis by simp
qed

text \<open>
  Claim C5, as stated, fails on the code. After the filters arrive on mount, an interval
  runs. A report of an empty selection then starts a second interval without clearing the
  first, and so does a bulk action: a path that starts an interval without clearing the
  existing one, into a state with two running intervals. And when \<^verbatim>\<open>onChangeCursor\<close>
  empties a selection, no interval is started: after selecting a row and paging, in a run
  of the rendered page, the selection is empty and no interval runs.
\<close>

theorem polling_interval_counterexample:
  "map fst (active (timers (Incidents_run assigning_store incidents0
       [FiltersChange [] True, SelectedIncidentIdsChange []]))) = [1, 2]
   \<and> map fst (active (timers (Incidents_run assigning_store incidents0
       [FiltersChange [] True, BulkActionClick (JString ''resolve'') OtherEvent]))) = [1, 2]
   \<and> rendered_run assigning_store incidents0
       [FiltersChange [] True, SelectedIncidentIdsChange [''a''], ChangeCursor ''c'' Next]
   \<and> selectedIncidentIds (Incidents_run assigning_store incidents0
       [FiltersChange [] True, SelectedIncidentIdsChange [''a'']]) = [''a'']
   \<and> selectedIncidentIds (Incidents_run assigning_store incidents0
       [FiltersChange [] True, SelectedIncidentIdsChange [''a''], ChangeCursor ''c'' Next]) = []
   \<and> active (timers (Incidents_run assigning_store incidents0
       [FiltersChange [] True, SelectedIncidentIdsChange [''a''], ChangeCursor ''c'' Next])) = []"
  by code_simp

end
